theory Spec2Isabelle
  imports Main
begin

section \<open>JavaScript values and objects\<close>

text \<open>
  The values the modelled code passes around: option objects, response bodies and the
  JSON error body. An object literal keeps the order of its keys (\<open>Obj\<close>); an object
  that is read and updated by key is a map from property names.
\<close>

datatype jsval = Undefined | Null | Bool bool | Num int | Str string
  | Obj "(string \<times> jsval) list"

type_synonym jsobject = "string \<rightharpoonup> jsval"

text \<open>Truthiness, as \<open>x ? a : b\<close>, \<open>!x\<close> and \<open>x || y\<close> use it.\<close>

fun truthy :: "jsval \<Rightarrow> bool" where
  "truthy Undefined = False"
| "truthy Null = False"
| "truthy (Bool b) = b"
| "truthy (Num n) = (n \<noteq> 0)"
| "truthy (Str s) = (s \<noteq> [])"
| "truthy (Obj kvs) = True"

text \<open>Reading a property: a key that is absent reads as \<open>undefined\<close>.\<close>

definition getprop :: "jsobject \<Rightarrow> string \<Rightarrow> jsval" where
  "getprop obj k = (case obj k of None \<Rightarrow> Undefined | Some v \<Rightarrow> v)"

text \<open>
  lodash's \<open>assign(target, s1, s2)\<close>: the own properties of each source are copied onto the
  target from left to right, a later source overwriting an earlier one; a source that is
  \<open>undefined\<close> or \<open>null\<close> is skipped.
\<close>

definition assign :: "jsobject \<Rightarrow> jsobject option \<Rightarrow> jsobject option \<Rightarrow> jsobject" where
  "assign target s1 s2 =
     target ++ (case s1 of None \<Rightarrow> Map.empty | Some m \<Rightarrow> m)
            ++ (case s2 of None \<Rightarrow> Map.empty | Some m \<Rightarrow> m)"

text \<open>\<open>String(n)\<close> for an integer \<open>n\<close>: its decimal numeral.\<close>

fun digits :: "nat \<Rightarrow> string" where
  "digits n = (if n < 10 then [char_of (48 + n)]
               else digits (n div 10) @ [char_of (48 + n mod 10)])"

declare digits.simps [simp del]

definition String_of :: "int \<Rightarrow> string" where
  "String_of n = (if n < 0 then CHR ''-'' # digits (nat (- n)) else digits (nat n))"

section \<open>Errors\<close>

text \<open>
  The errors of the OAuth2 library are classes (\<open>instanceof\<close> tests the class) carrying
  an HTTP status \<open>code\<close>, a \<open>name\<close> and a \<open>message\<close>.
\<close>

datatype error_class = UnauthorizedRequestError | InvalidArgumentError
  | InvalidRequestError | InvalidClientError | ServerError | OtherError

record error =
  e_class :: error_class
  e_code :: int
  e_name :: string
  e_message :: string

definition new_UnauthorizedRequestError :: "string \<Rightarrow> error" where
  "new_UnauthorizedRequestError msg =
     \<lparr>e_class = UnauthorizedRequestError, e_code = 401,
      e_name = ''unauthorized_request'', e_message = msg\<rparr>"

definition new_InvalidArgumentError :: "string \<Rightarrow> error" where
  "new_InvalidArgumentError msg =
     \<lparr>e_class = InvalidArgumentError, e_code = 500,
      e_name = ''invalid_argument'', e_message = msg\<rparr>"

definition new_InvalidRequestError :: "string \<Rightarrow> error" where
  "new_InvalidRequestError msg =
     \<lparr>e_class = InvalidRequestError, e_code = 400,
      e_name = ''invalid_request'', e_message = msg\<rparr>"

definition new_InvalidClientError :: "string \<Rightarrow> error" where
  "new_InvalidClientError msg =
     \<lparr>e_class = InvalidClientError, e_code = 400,
      e_name = ''invalid_client'', e_message = msg\<rparr>"

section \<open>The GraphQL Application object\<close>

record user =
  u_id :: int
  u_CollectiveId :: int

record application =
  app_id :: int
  app_CollectiveId :: int
  app_type :: string
  app_name :: "string option"
  app_description :: "string option"
  app_apiKey :: "string option"
  app_clientId :: "string option"
  app_clientSecret :: "string option"
  app_callbackUrl :: "string option"

text \<open>The request context of a resolver: \<open>req.remoteUser\<close> is absent for a signed-out caller.\<close>

record request =
  remoteUser :: "user option"

text \<open>
  \<open>id\<close> and \<open>legacyId\<close>. The encoder \<open>idEncode\<close> of the identifiers module is a
  parameter.
\<close>

definition Application_id :: "(int \<Rightarrow> string \<Rightarrow> string) \<Rightarrow> application \<Rightarrow> string" where
  "Application_id idEncode order = idEncode (app_id order) ''order''"

definition Application_legacyId :: "application \<Rightarrow> int" where
  "Application_legacyId order = app_id order"

text \<open>
  The owner-gated resolvers. A resolver that falls off its \<open>if\<close> returns \<open>undefined\<close>,
  which is \<open>None\<close> here, as is a stored \<open>null\<close>.
\<close>

definition Application_apiKey :: "application \<Rightarrow> request \<Rightarrow> string option" where
  "Application_apiKey application req =
     (case remoteUser req of
        None \<Rightarrow> None
      | Some u \<Rightarrow> if u_CollectiveId u = app_CollectiveId application
                  then app_apiKey application else None)"

definition Application_clientId :: "application \<Rightarrow> request \<Rightarrow> string option" where
  "Application_clientId application req =
     (case remoteUser req of
        None \<Rightarrow> None
      | Some u \<Rightarrow> if u_CollectiveId u = app_CollectiveId application
                  then app_clientId application else None)"

definition Application_clientSecret :: "application \<Rightarrow> request \<Rightarrow> string option" where
  "Application_clientSecret application req =
     (case remoteUser req of
        None \<Rightarrow> None
      | Some u \<Rightarrow> if u_CollectiveId u = app_CollectiveId application
                  then app_clientSecret application else None)"

definition Application_callbackUrl :: "application \<Rightarrow> request \<Rightarrow> string option" where
  "Application_callbackUrl application req =
     (case remoteUser req of
        None \<Rightarrow> None
      | Some u \<Rightarrow> if u_CollectiveId u = app_CollectiveId application
                  then app_callbackUrl application else None)"

text \<open>
  The session field \<open>oauthAuthorization\<close>. The rows of the \<open>UserToken\<close> table carry the
  user and the client they reference; \<open>findOne\<close> returns the first row that satisfies
  the \<open>where\<close> clause, and \<open>getCollective\<close> reads the account a user is linked to.
\<close>

record collective =
  c_id :: int
  c_slug :: string

record user_token =
  ut_ApplicationId :: int
  ut_UserId :: int
  ut_user :: user
  ut_client :: application
  ut_accessTokenExpiresAt :: int
  ut_createdAt :: int
  ut_updatedAt :: int

record oauth_authorization =
  oa_account :: "collective option"
  oa_application :: application
  oa_expiresAt :: int
  oa_createdAt :: int
  oa_updatedAt :: int

definition UserToken_findOne :: "user_token list \<Rightarrow> int \<Rightarrow> int \<Rightarrow> user_token option" where
  "UserToken_findOne rows applicationId userId =
     find (\<lambda>t. ut_ApplicationId t = applicationId \<and> ut_UserId t = userId) rows"

definition getCollective :: "(int \<rightharpoonup> collective) \<Rightarrow> user \<Rightarrow> collective option" where
  "getCollective collectives u = collectives (u_CollectiveId u)"

definition Application_oauthAuthorization ::
  "(int \<rightharpoonup> collective) \<Rightarrow> user_token list \<Rightarrow> application \<Rightarrow> request
     \<Rightarrow> oauth_authorization option" where
  "Application_oauthAuthorization collectives rows application req =
     (case remoteUser req of
        None \<Rightarrow> None
      | Some u \<Rightarrow>
          (case UserToken_findOne rows (app_id application) (u_id u) of
             None \<Rightarrow> None
           | Some userToken \<Rightarrow>
               Some \<lparr>oa_account = getCollective collectives (ut_user userToken),
                     oa_application = ut_client userToken,
                     oa_expiresAt = ut_accessTokenExpiresAt userToken,
                     oa_createdAt = ut_createdAt userToken,
                     oa_updatedAt = ut_updatedAt userToken\<rparr>))"

section \<open>The token codec\<close>

text \<open>
  The constants of the auth module and the signing secret of the configuration are
  parameters.
\<close>

record auth_module =
  TOKEN_EXPIRATION_SESSION :: int
  ALGORITHM :: string
  KID :: string

text \<open>
  A signed token, symbolically: its header, its claims and the key it was signed with.
  \<open>jwt_sign\<close> is the \<open>sign\<close> of the jsonwebtoken package for an object payload with the
  options the code passes: the header is \<open>alg\<close>, \<open>typ\<close> and the members of
  \<open>options.header\<close>; \<open>iat\<close> is the time of the call, \<open>exp\<close> is \<open>iat\<close> plus a numeric
  \<open>expiresIn\<close> (in seconds), \<open>sub\<close> is \<open>options.subject\<close>.
\<close>

record jwt_header =
  hdr_alg :: string
  hdr_typ :: string
  hdr_kid :: string

record jwt_claims =
  claim_access_token :: string
  claim_iat :: int
  claim_exp :: int
  claim_sub :: string

record jwt =
  jwt_header :: jwt_header
  jwt_payload :: jwt_claims
  jwt_key :: string

record sign_options =
  expiresIn :: int
  subject :: string
  algorithm :: string
  header_kid :: string

definition jwt_sign :: "string \<Rightarrow> string \<Rightarrow> sign_options \<Rightarrow> int \<Rightarrow> jwt" where
  "jwt_sign accessTokenClaim secret opts now =
     \<lparr>jwt_header = \<lparr>hdr_alg = algorithm opts, hdr_typ = ''JWT'', hdr_kid = header_kid opts\<rparr>,
      jwt_payload = \<lparr>claim_access_token = accessTokenClaim, claim_iat = now,
                     claim_exp = now + expiresIn opts, claim_sub = subject opts\<rparr>,
      jwt_key = secret\<rparr>"

text \<open>
  The token the grant handler saved, and the handler's token model of it, which adds the
  remaining lifetime of the access token.
\<close>

record token =
  accessToken :: string
  accessTokenExpiresAt :: int
  refreshToken :: "string option"
  tok_client :: string
  tok_user :: user

record token_model = token +
  accessTokenLifetime :: int

text \<open>
  \<open>CustomTokenHandler.getTokenType(model).valueOf()\<close>, called at time \<open>now\<close>.
\<close>

definition getTokenType :: "auth_module \<Rightarrow> string \<Rightarrow> int \<Rightarrow> token_model \<Rightarrow> jwt" where
  "getTokenType auth jwtSecret now model =
     jwt_sign (accessToken model) jwtSecret
       \<lparr>expiresIn = TOKEN_EXPIRATION_SESSION auth,
        subject = String_of (u_id (tok_user model)),
        algorithm = ALGORITHM auth,
        header_kid = KID auth\<rparr> now"

section \<open>The token operation of the server\<close>

text \<open>The protocol response of the OAuth2 library.\<close>

record oauth_response =
  resp_status :: int
  resp_headers :: "string \<rightharpoonup> string"
  resp_body :: jsval

definition token_defaults :: "auth_module \<Rightarrow> jsobject" where
  "token_defaults auth =
     [''accessTokenLifetime'' \<mapsto> Num (TOKEN_EXPIRATION_SESSION auth),
      ''refreshTokenLifetime'' \<mapsto> Num (60 * 60 * 24 * 365),
      ''allowExtendedTokenAttributes'' \<mapsto> Bool False,
      ''requireClientAuthentication'' \<mapsto> Obj []]"

definition token_options :: "auth_module \<Rightarrow> jsobject \<Rightarrow> jsobject option \<Rightarrow> jsobject" where
  "token_options auth this_options options =
     assign (token_defaults auth) (Some this_options) options"

text \<open>
  \<open>CustomOAuth2Server.token\<close>. The \<open>handle\<close> of the library's token handler is a
  parameter: it is given the options the handler is constructed with and the
  \<open>getTokenType\<close> that \<open>CustomTokenHandler\<close> overrides, and returns the saved token or
  the error, with the protocol response as the call leaves it.
\<close>

definition CustomOAuth2Server_token ::
  "auth_module \<Rightarrow> string \<Rightarrow> int
     \<Rightarrow> (jsobject \<Rightarrow> (token_model \<Rightarrow> jwt) \<Rightarrow> 'rq \<Rightarrow> (error + token) \<times> oauth_response)
     \<Rightarrow> jsobject \<Rightarrow> 'rq \<Rightarrow> jsobject option \<Rightarrow> (error + token) \<times> oauth_response" where
  "CustomOAuth2Server_token auth jwtSecret now handle this_options request options =
     handle (token_options auth this_options options) (getTokenType auth jwtSecret now) request"

section \<open>The entities of the authorization server\<close>

text \<open>
  Modelled from the spec: the entities of the data model that the authorize operation
  reads and writes (Client, AuthorizationCode, the Store holding them). Their
  declarations are not under src/. A reference to a client is its id, a reference to a
  user is the user's id.
\<close>

record client =
  cl_id :: string
  cl_secret :: string
  cl_redirectUris :: "string list"
  cl_grants :: "string list"
  cl_CollectiveId :: int

record authorization_code =
  ac_code :: string
  ac_client :: string
  ac_user :: int
  ac_redirectUri :: string
  ac_scope :: "string option"
  ac_issuedAt :: int
  ac_expiresAt :: int
  ac_consumed :: bool

record store =
  st_clients :: "client list"
  st_codes :: "authorization_code list"

section \<open>The Express middlewares\<close>

text \<open>
  What a middleware does to the Express response \<open>res\<close> and to \<open>next\<close> is recorded as
  a list, in order: the assignment to \<open>res.locals.oauth\<close>, the calls of \<open>next\<close> and the
  calls of \<open>set\<close>, \<open>status\<close>, \<open>send\<close> and \<open>redirect\<close> on \<open>res\<close>. Nothing is assumed about
  Express itself.
\<close>

datatype locals_oauth = LocalsToken token | LocalsCode authorization_code

datatype effect =
    SetLocalsOAuth locals_oauth
  | Next "error option"
  | ResSet "string \<rightharpoonup> string"
  | ResSetField string string
  | ResStatus int
  | ResSend jsval
  | ResRedirect "string option"

record oauth_server =
  useErrorHandler :: bool
  continueMiddleware :: bool
  server_options :: jsobject

text \<open>The constructor: it fails without a \<open>model\<close> and coerces the two flags to booleans.\<close>

definition OAuthServer :: "jsobject option \<Rightarrow> error + oauth_server" where
  "OAuthServer options0 =
     (let options = (case options0 of None \<Rightarrow> Map.empty | Some opts \<Rightarrow> opts) in
      if \<not> truthy (getprop options ''model'')
      then Inl (new_InvalidArgumentError ''Missing parameter: `model`'')
      else Inr \<lparr>useErrorHandler = truthy (getprop options ''useErrorHandler''),
                continueMiddleware = truthy (getprop options ''continueMiddleware''),
                server_options =
                  options(''useErrorHandler'' := None, ''continueMiddleware'' := None)\<rparr>)"

text \<open>
  \<open>handleResponse\<close>: the calls on \<open>res\<close>, and the protocol response as the handler
  leaves it (the 302 branch deletes its \<open>location\<close> header).
\<close>

definition handleResponse :: "oauth_response \<Rightarrow> effect list \<times> oauth_response" where
  "handleResponse response =
     (if resp_status response = 302
      then (let location = resp_headers response ''location'';
                response' = response\<lparr>resp_headers := (resp_headers response)(''location'' := None)\<rparr>
            in ([ResSet (resp_headers response'), ResRedirect location], response'))
      else ([ResSet (resp_headers response), ResStatus (resp_status response),
             ResSend (resp_body response)], response))"

text \<open>\<open>handleError\<close>; \<open>res.send()\<close> without an argument sends \<open>undefined\<close>.\<close>

definition handleError :: "oauth_server \<Rightarrow> error \<Rightarrow> oauth_response option \<Rightarrow> effect list" where
  "handleError this e response =
     (if useErrorHandler this then [Next (Some e)]
      else (case response of None \<Rightarrow> [] | Some r \<Rightarrow> [ResSet (resp_headers r)])
           @ [ResStatus (e_code e)]
           @ (if e_class e = UnauthorizedRequestError
              then [ResSetField ''WWW-Authenticate''
                      (''Bearer realm='' @ [CHR 0x22] @ ''service'' @ [CHR 0x22]),
                    ResSend Undefined]
              else [ResSend (Obj [(''error'', Str (e_name e)),
                                  (''error_description'', Str (e_message e))])]))"

text \<open>
  The three middlewares. The operation of the library's server that each one wraps is a
  parameter; it returns the result or the error, and the protocol response as the call
  leaves it.
\<close>

definition OAuthServer_authenticate ::
  "oauth_server \<Rightarrow> ('rq \<Rightarrow> 'o \<Rightarrow> (error + token) \<times> oauth_response) \<Rightarrow> 'o \<Rightarrow> 'rq
     \<Rightarrow> effect list" where
  "OAuthServer_authenticate this server_authenticate options req =
     (case server_authenticate req options of
        (Inr tok, response) \<Rightarrow> [SetLocalsOAuth (LocalsToken tok), Next None]
      | (Inl e, response) \<Rightarrow> handleError this e None)"

definition OAuthServer_authorize ::
  "oauth_server \<Rightarrow> ('rq \<Rightarrow> 'o \<Rightarrow> (error + authorization_code) \<times> oauth_response)
     \<Rightarrow> 'o \<Rightarrow> 'rq
     \<Rightarrow> effect list" where
  "OAuthServer_authorize this server_authorize options req =
     (case server_authorize req options of
        (Inr code, response) \<Rightarrow>
          [SetLocalsOAuth (LocalsCode code)]
          @ (if continueMiddleware this then [Next None] else [])
          @ fst (handleResponse response)
      | (Inl e, response) \<Rightarrow> handleError this e (Some response))"

definition OAuthServer_token ::
  "oauth_server \<Rightarrow> ('rq \<Rightarrow> jsobject option \<Rightarrow> (error + token) \<times> oauth_response)
     \<Rightarrow> jsobject option \<Rightarrow> 'rq \<Rightarrow> effect list" where
  "OAuthServer_token this server_token options req =
     (case server_token req options of
        (Inr tok, response) \<Rightarrow>
          [SetLocalsOAuth (LocalsToken tok)]
          @ (if continueMiddleware this then [Next None] else [])
          @ fst (handleResponse response)
      | (Inl e, response) \<Rightarrow> handleError this e (Some response))"

text \<open>
  \<open>this.server.token\<close> of a constructed server: the token operation above, with the
  options the server was constructed with.
\<close>

definition this_server_token ::
  "oauth_server \<Rightarrow> auth_module \<Rightarrow> string \<Rightarrow> int
     \<Rightarrow> (jsobject \<Rightarrow> (token_model \<Rightarrow> jwt) \<Rightarrow> 'rq \<Rightarrow> (error + token) \<times> oauth_response)
     \<Rightarrow> 'rq \<Rightarrow> jsobject option \<Rightarrow> (error + token) \<times> oauth_response" where
  "this_server_token this auth jwtSecret now handle request options =
     CustomOAuth2Server_token auth jwtSecret now handle (server_options this) request options"



fun touches_res :: "effect list \<Rightarrow> bool" where
  "touches_res [] = False"
| "touches_res (Next x # es) = touches_res es"
| "touches_res (e # es) = True"


section \<open>The authorize operation\<close>

text \<open>\<open>authorizeAuthenticateHandler.handle\<close>.\<close>

definition authorizeAuthenticateHandler_handle :: "'a request_scheme \<Rightarrow> error + user" where
  "authorizeAuthenticateHandler_handle req =
     (case remoteUser req of
        None \<Rightarrow> Inl (new_UnauthorizedRequestError ''You must be signed in'')
      | Some u \<Rightarrow> Inr u)"

text \<open>
  Modelled from the spec: the parameters of an authorize request (section 6), on top of
  the request context with its signed-in user; the declaration of the library's request
  is not under src/.
\<close>

record authorize_request = request +
  ar_client_id :: "string option"
  ar_redirect_uri :: "string option"
  ar_scope :: "string option"
  ar_state :: "string option"

text \<open>
  Modelled from the spec: the Grant Engine's \<open>authorize\<close> operation (section 4.1); the
  engine is the OAuth2 library's authorize handler, which is not under src/. It requires
  an authenticated principal, for which it calls the handler above; it then validates
  that the client exists and that the redirect URI is one of the client's registered
  URIs, exactly; on success it binds a fresh code with a short time to live to the
  client, the principal, the redirect URI and the scope, persists it and returns it. The
  random code value \<open>newCode\<close>, the time to live \<open>ttl\<close> and the clock \<open>now\<close> are
  parameters.
\<close>

definition GrantEngine_authorize ::
  "string \<Rightarrow> int \<Rightarrow> int \<Rightarrow> store \<Rightarrow> authorize_request
     \<Rightarrow> (error + authorization_code) \<times> store" where
  "GrantEngine_authorize newCode ttl now st rq =
     (case authorizeAuthenticateHandler_handle rq of
        Inl e \<Rightarrow> (Inl e, st)
      | Inr usr \<Rightarrow>
          (case (ar_client_id rq, ar_redirect_uri rq) of
             (Some cid, Some uri) \<Rightarrow>
               (case find (\<lambda>c. cl_id c = cid) (st_clients st) of
                  None \<Rightarrow> (Inl (new_InvalidClientError ''client_id''), st)
                | Some c \<Rightarrow>
                    if uri \<in> set (cl_redirectUris c)
                    then (let code = \<lparr>ac_code = newCode, ac_client = cl_id c,
                                       ac_user = u_id usr, ac_redirectUri = uri,
                                       ac_scope = ar_scope rq, ac_issuedAt = now,
                                       ac_expiresAt = now + ttl, ac_consumed = False\<rparr>
                          in (Inr code, st\<lparr>st_codes := code # st_codes st\<rparr>))
                    else (Inl (new_InvalidRequestError ''redirect_uri''), st))
           | _ \<Rightarrow> (Inl (new_InvalidRequestError ''client_id, redirect_uri''), st)))"

section \<open>Auxiliary facts\<close>

lemma String_of_42: "String_of 42 = ''42''"
  by code_simp

lemma String_of_negative: "String_of (- 7) = ''-7''"
  by code_simp

text \<open>
  The decimal numeral of a number reads back as that number, so \<open>String_of\<close> maps
  different numbers to different strings.
\<close>

lemma digit_char_value: "k < 10 \<Longrightarrow> of_char (char_of (48 + k :: nat)) = (48 + k :: nat)"
  by (simp add: of_char_of)

lemma digits_value:
  "foldl (\<lambda>a c. 10 * a + (of_char c - 48)) 0 (digits n) = n"
proof (induction n rule: digits.induct)
  case (1 n)
  show ?case
  proof (cases "n < 10")
    case True
    then show ?thesis
      by (subst digits.simps) (simp add: digit_char_value)
  next
    case False
    have "n mod 10 < 10" by simp
    then have d: "of_char (char_of (48 + n mod 10)) = 48 + n mod 10"
      by (rule digit_char_value)
    from False 1 have "foldl (\<lambda>a c. 10 * a + (of_char c - 48)) 0 (digits (n div 10)) = n div 10"
      by simp
    with False d show ?thesis
      by (subst digits.simps) simp
  qed
qed

lemma digits_inj: "digits m = digits n \<Longrightarrow> m = n"
  by (metis digits_value)

lemma digits_no_minus: "CHR ''-'' \<notin> set (digits n)"
proof (induction n rule: digits.induct)
  case (1 n)
  have c: "k < 10 \<Longrightarrow> char_of (48 + k) \<noteq> CHR ''-''" for k :: nat
  proof
    assume "k < 10" and "char_of (48 + k) = CHR ''-''"
    then have "of_char (char_of (48 + k)) = (of_char (CHR ''-'') :: nat)" by simp
    with \<open>k < 10\<close> show False by (simp add: of_char_of)
  qed
  show ?case
  proof (cases "n < 10")
    case True
    then show ?thesis using c [of n] by (subst digits.simps) auto
  next
    case False
    with 1 have "CHR ''-'' \<notin> set (digits (n div 10))" by simp
    moreover have "char_of (48 + n mod 10) \<noteq> CHR ''-''" by (rule c) simp
    ultimately show ?thesis using False by (subst digits.simps) auto
  qed
qed

lemma digits_nonempty: "digits n \<noteq> []"
  by (subst digits.simps) simp

lemma String_of_inj: "String_of m = String_of n \<Longrightarrow> m = n"
proof -
  assume eq: "String_of m = String_of n"
  have neg_pos: False if "a < 0" "\<not> b < 0" "String_of a = String_of b" for a b :: int
  proof -
    from that have "CHR ''-'' # digits (nat (- a)) = digits (nat b)"
      by (simp add: String_of_def)
    then have "CHR ''-'' \<in> set (digits (nat b))" by (metis list.set_intros(1))
    then show False by (simp add: digits_no_minus)
  qed
  show "m = n"
  proof (cases "m < 0"; cases "n < 0")
    assume "m < 0" "n < 0"
    with eq have "digits (nat (- m)) = digits (nat (- n))" by (simp add: String_of_def)
    then have "nat (- m) = nat (- n)" by (rule digits_inj)
    with \<open>m < 0\<close> \<open>n < 0\<close> show ?thesis by simp
  next
    assume "m < 0" "\<not> n < 0"
    with eq neg_pos show ?thesis by blast
  next
    assume "\<not> m < 0" "n < 0"
    with eq neg_pos [of n m] show ?thesis by simp
  next
    assume "\<not> m < 0" "\<not> n < 0"
    with eq have "digits (nat m) = digits (nat n)" by (simp add: String_of_def)
    then have "nat m = nat n" by (rule digits_inj)
    with \<open>\<not> m < 0\<close> \<open>\<not> n < 0\<close> show ?thesis by simp
  qed
qed





lemma authenticate_failure:
  "server_authenticate req opts = (Inl e, r) \<Longrightarrow>
     OAuthServer_authenticate this server_authenticate opts req = handleError this e None"
  by (simp add: OAuthServer_authenticate_def)

lemma authorize_failure:
  "server_authorize req opts = (Inl e, r) \<Longrightarrow>
     OAuthServer_authorize this server_authorize opts req = handleError this e (Some r)"
  by (simp add: OAuthServer_authorize_def)

lemma token_failure:
  "server_token req opts = (Inl e, r) \<Longrightarrow>
     OAuthServer_token this server_token opts req = handleError this e (Some r)"
  by (simp add: OAuthServer_token_def)

lemma findOne_Some:
  "UserToken_findOne rows a u = Some t \<Longrightarrow>
     t \<in> set rows \<and> ut_ApplicationId t = a \<and> ut_UserId t = u"
  by (auto simp: UserToken_findOne_def find_Some_iff)

lemma findOne_None:
  "UserToken_findOne rows a u = None \<longleftrightarrow>
     \<not> (\<exists>t\<in>set rows. ut_ApplicationId t = a \<and> ut_UserId t = u)"
  by (auto simp: UserToken_findOne_def find_None_iff)

section \<open>The token codec: what an issued token carries\<close>


text \<open>Tokens with the same subject were issued for the same user id.\<close>

lemma subject_identifies_user:
  assumes "claim_sub (jwt_payload (getTokenType auth jwtSecret now model))
             = claim_sub (jwt_payload (getTokenType auth' jwtSecret' now' model'))"
  shows "u_id (tok_user model) = u_id (tok_user model')"
proof -
  from assms have "String_of (u_id (tok_user model)) = String_of (u_id (tok_user model'))"
    by (simp add: getTokenType_def jwt_sign_def)
  then show ?thesis by (rule String_of_inj)
qed

section \<open>The Application object\<close>

text \<open>
  C3. Each of the four owner-gated resolvers returns the stored value when the requester
  is signed in and the requester's account is the application's owning account, and
  returns nothing when the requester is signed out or has another account; so a resolver
  that returns a value, the client secret and the callback URL among them, does so to a
  requester of the owning account.
\<close>

theorem owner_gated_fields:
  "(remoteUser req = Some u \<and> u_CollectiveId u = app_CollectiveId a \<longrightarrow>
      Application_apiKey a req = app_apiKey a
      \<and> Application_clientId a req = app_clientId a
      \<and> Application_clientSecret a req = app_clientSecret a
      \<and> Application_callbackUrl a req = app_callbackUrl a)
   \<and> (remoteUser req = None
        \<or> (remoteUser req = Some u \<and> u_CollectiveId u \<noteq> app_CollectiveId a) \<longrightarrow>
      Application_apiKey a req = None
      \<and> Application_clientId a req = None
      \<and> Application_clientSecret a req = None
      \<and> Application_callbackUrl a req = None)
   \<and> (Application_apiKey a req = Some v \<or> Application_clientId a req = Some v
        \<or> Application_clientSecret a req = Some v
        \<or> Application_callbackUrl a req = Some v \<longrightarrow>
      (\<exists>w. remoteUser req = Some w \<and> u_CollectiveId w = app_CollectiveId a))"
  by (auto simp: Application_apiKey_def Application_clientId_def
      Application_clientSecret_def Application_callbackUrl_def
      split: option.splits if_splits)

text \<open>
  The owner of account 7 reads the secret and the callback URL of an application of
  account 7; a user of account 8 and a signed-out caller read nothing.
\<close>

theorem owner_gated_fields_witness:
  "Application_clientSecret
      \<lparr>app_id = 1, app_CollectiveId = 7, app_type = ''oAuth'', app_name = None,
       app_description = None, app_apiKey = None, app_clientId = Some ''abc'',
       app_clientSecret = Some ''S'', app_callbackUrl = Some ''https://x/cb''\<rparr>
      \<lparr>remoteUser = Some \<lparr>u_id = 42, u_CollectiveId = 7\<rparr>\<rparr> = Some ''S''
   \<and> Application_callbackUrl
      \<lparr>app_id = 1, app_CollectiveId = 7, app_type = ''oAuth'', app_name = None,
       app_description = None, app_apiKey = None, app_clientId = Some ''abc'',
       app_clientSecret = Some ''S'', app_callbackUrl = Some ''https://x/cb''\<rparr>
      \<lparr>remoteUser = Some \<lparr>u_id = 42, u_CollectiveId = 7\<rparr>\<rparr> = Some ''https://x/cb''
   \<and> Application_clientSecret
      \<lparr>app_id = 1, app_CollectiveId = 7, app_type = ''oAuth'', app_name = None,
       app_description = None, app_apiKey = None, app_clientId = Some ''abc'',
       app_clientSecret = Some ''S'', app_callbackUrl = Some ''https://x/cb''\<rparr>
      \<lparr>remoteUser = Some \<lparr>u_id = 43, u_CollectiveId = 8\<rparr>\<rparr> = None
   \<and> Application_callbackUrl
      \<lparr>app_id = 1, app_CollectiveId = 7, app_type = ''oAuth'', app_name = None,
       app_description = None, app_apiKey = None, app_clientId = Some ''abc'',
       app_clientSecret = Some ''S'', app_callbackUrl = Some ''https://x/cb''\<rparr>
      \<lparr>remoteUser = None\<rparr> = None"
  using
    owner_gated_fields [of "\<lparr>remoteUser = Some \<lparr>u_id = 42, u_CollectiveId = 7\<rparr>\<rparr>"
      "\<lparr>u_id = 42, u_CollectiveId = 7\<rparr>"
      "\<lparr>app_id = 1, app_CollectiveId = 7, app_type = ''oAuth'', app_name = None,
        app_description = None, app_apiKey = None, app_clientId = Some ''abc'',
        app_clientSecret = Some ''S'', app_callbackUrl = Some ''https://x/cb''\<rparr>"
      "''S''"]
    owner_gated_fields [of "\<lparr>remoteUser = Some \<lparr>u_id = 43, u_CollectiveId = 8\<rparr>\<rparr>"
      "\<lparr>u_id = 43, u_CollectiveId = 8\<rparr>"
      "\<lparr>app_id = 1, app_CollectiveId = 7, app_type = ''oAuth'', app_name = None,
        app_description = None, app_apiKey = None, app_clientId = Some ''abc'',
        app_clientSecret = Some ''S'', app_callbackUrl = Some ''https://x/cb''\<rparr>"
      "''S''"]
    owner_gated_fields [of "\<lparr>remoteUser = None\<rparr>" undefined
      "\<lparr>app_id = 1, app_CollectiveId = 7, app_type = ''oAuth'', app_name = None,
        app_description = None, app_apiKey = None, app_clientId = Some ''abc'',
        app_clientSecret = Some ''S'', app_callbackUrl = Some ''https://x/cb''\<rparr>"
      "''S''"]
  by simp

text \<open>
  C10. The \<open>id\<close> field is the database id encoded under the namespace \<open>order\<close>, and
  \<open>legacyId\<close> is the database id itself: \<open>id\<close> is the encoding of the number that
  \<open>legacyId\<close> returns.
\<close>

theorem Application_id_order_namespace:
  "Application_id idEncode order = idEncode (app_id order) ''order''
   \<and> Application_legacyId order = app_id order
   \<and> Application_id idEncode order = idEncode (Application_legacyId order) ''order''"
  by (simp add: Application_id_def Application_legacyId_def)

text \<open>
  C8. For a signed-in requester, the session field looks for a row of the token table
  whose application reference is the application's id and whose user reference is the
  requester's id. When such a row exists, the field is the pairing of the account of that
  row's user, that row's client, and that row's expiry, creation and update times; when
  none exists, the field is empty.
\<close>

theorem session_field:
  assumes "remoteUser req = Some u"
  shows "((\<exists>t\<in>set rows. ut_ApplicationId t = app_id a \<and> ut_UserId t = u_id u) \<longrightarrow>
            (\<exists>t\<in>set rows. ut_ApplicationId t = app_id a \<and> ut_UserId t = u_id u
               \<and> Application_oauthAuthorization collectives rows a req =
                   Some \<lparr>oa_account = collectives (u_CollectiveId (ut_user t)),
                         oa_application = ut_client t,
                         oa_expiresAt = ut_accessTokenExpiresAt t,
                         oa_createdAt = ut_createdAt t,
                         oa_updatedAt = ut_updatedAt t\<rparr>))
       \<and> (\<not> (\<exists>t\<in>set rows. ut_ApplicationId t = app_id a \<and> ut_UserId t = u_id u) \<longrightarrow>
            Application_oauthAuthorization collectives rows a req = None)"
proof (cases "UserToken_findOne rows (app_id a) (u_id u)")
  case None
  then have "\<not> (\<exists>t\<in>set rows. ut_ApplicationId t = app_id a \<and> ut_UserId t = u_id u)"
    by (simp add: findOne_None)
  moreover from None assms
  have "Application_oauthAuthorization collectives rows a req = None"
    by (simp add: Application_oauthAuthorization_def)
  ultimately show ?thesis by blast
next
  case (Some t)
  then have "t \<in> set rows \<and> ut_ApplicationId t = app_id a \<and> ut_UserId t = u_id u"
    by (rule findOne_Some)
  moreover from Some assms
  have "Application_oauthAuthorization collectives rows a req =
          Some \<lparr>oa_account = collectives (u_CollectiveId (ut_user t)),
                oa_application = ut_client t,
                oa_expiresAt = ut_accessTokenExpiresAt t,
                oa_createdAt = ut_createdAt t,
                oa_updatedAt = ut_updatedAt t\<rparr>"
    by (simp add: Application_oauthAuthorization_def getCollective_def)
  ultimately show ?thesis by blast
qed

text \<open>
  A token table with one row, of application 1 and user 42: user 42 reads the session,
  user 43 reads nothing.
\<close>

theorem session_field_witness:
  "Application_oauthAuthorization [7 \<mapsto> \<lparr>c_id = 7, c_slug = ''alice''\<rparr>]
      [\<lparr>ut_ApplicationId = 1, ut_UserId = 42, ut_user = \<lparr>u_id = 42, u_CollectiveId = 7\<rparr>,
        ut_client = \<lparr>app_id = 1, app_CollectiveId = 9, app_type = ''oAuth'', app_name = None,
          app_description = None, app_apiKey = None, app_clientId = Some ''abc'',
          app_clientSecret = Some ''S'', app_callbackUrl = Some ''https://x/cb''\<rparr>,
        ut_accessTokenExpiresAt = 5000, ut_createdAt = 1000, ut_updatedAt = 2000\<rparr>]
      \<lparr>app_id = 1, app_CollectiveId = 9, app_type = ''oAuth'', app_name = None,
       app_description = None, app_apiKey = None, app_clientId = Some ''abc'',
       app_clientSecret = Some ''S'', app_callbackUrl = Some ''https://x/cb''\<rparr>
      \<lparr>remoteUser = Some \<lparr>u_id = 42, u_CollectiveId = 7\<rparr>\<rparr>
    = Some \<lparr>oa_account = Some \<lparr>c_id = 7, c_slug = ''alice''\<rparr>,
            oa_application = \<lparr>app_id = 1, app_CollectiveId = 9, app_type = ''oAuth'',
              app_name = None, app_description = None, app_apiKey = None,
              app_clientId = Some ''abc'', app_clientSecret = Some ''S'',
              app_callbackUrl = Some ''https://x/cb''\<rparr>,
            oa_expiresAt = 5000, oa_createdAt = 1000, oa_updatedAt = 2000\<rparr>
   \<and> Application_oauthAuthorization [7 \<mapsto> \<lparr>c_id = 7, c_slug = ''alice''\<rparr>]
      [\<lparr>ut_ApplicationId = 1, ut_UserId = 42, ut_user = \<lparr>u_id = 42, u_CollectiveId = 7\<rparr>,
        ut_client = \<lparr>app_id = 1, app_CollectiveId = 9, app_type = ''oAuth'', app_name = None,
          app_description = None, app_apiKey = None, app_clientId = Some ''abc'',
          app_clientSecret = Some ''S'', app_callbackUrl = Some ''https://x/cb''\<rparr>,
        ut_accessTokenExpiresAt = 5000, ut_createdAt = 1000, ut_updatedAt = 2000\<rparr>]
      \<lparr>app_id = 1, app_CollectiveId = 9, app_type = ''oAuth'', app_name = None,
       app_description = None, app_apiKey = None, app_clientId = Some ''abc'',
       app_clientSecret = Some ''S'', app_callbackUrl = Some ''https://x/cb''\<rparr>
      \<lparr>remoteUser = Some \<lparr>u_id = 43, u_CollectiveId = 8\<rparr>\<rparr>
    = None"
proof -
  let ?app = "\<lparr>app_id = 1, app_CollectiveId = 9, app_type = ''oAuth'', app_name = None,
       app_description = None, app_apiKey = None, app_clientId = Some ''abc'',
       app_clientSecret = Some ''S'', app_callbackUrl = Some ''https://x/cb''\<rparr>"
  let ?rows = "[\<lparr>ut_ApplicationId = 1, ut_UserId = 42, ut_user = \<lparr>u_id = 42, u_CollectiveId = 7\<rparr>,
        ut_client = ?app,
        ut_accessTokenExpiresAt = 5000, ut_createdAt = 1000, ut_updatedAt = 2000\<rparr>]"
  let ?cs = "[7 \<mapsto> \<lparr>c_id = 7, c_slug = ''alice''\<rparr>]"
  let ?alice = "\<lparr>u_id = 42, u_CollectiveId = 7\<rparr>"
  let ?bob = "\<lparr>u_id = 43, u_CollectiveId = 8\<rparr>"
  have "remoteUser \<lparr>remoteUser = Some ?alice\<rparr> = Some ?alice" by simp
  from session_field [OF this, of ?rows ?app ?cs]
  have a: "Application_oauthAuthorization ?cs ?rows ?app \<lparr>remoteUser = Some ?alice\<rparr>
    = Some \<lparr>oa_account = Some \<lparr>c_id = 7, c_slug = ''alice''\<rparr>,
            oa_application = ?app,
            oa_expiresAt = 5000, oa_createdAt = 1000, oa_updatedAt = 2000\<rparr>"
    by simp
  have "remoteUser \<lparr>remoteUser = Some ?bob\<rparr> = Some ?bob" by simp
  from session_field [OF this, of ?rows ?app ?cs]
  have b: "Application_oauthAuthorization ?cs ?rows ?app \<lparr>remoteUser = Some ?bob\<rparr> = None"
    by simp
  from a b show ?thesis by (rule conjI)
qed

section \<open>The authorize operation requires a principal\<close>

text \<open>
  The authorize operation, on a request of a signed-in user for a registered client and
  redirect URI, persists a code bound to them.
\<close>

lemma GrantEngine_authorize_example:
  "GrantEngine_authorize ''C'' 300 1000
        \<lparr>st_clients = [\<lparr>cl_id = ''abc'', cl_secret = ''S'', cl_redirectUris = [''https://x/cb''],
                          cl_grants = [''authorization_code''], cl_CollectiveId = 7\<rparr>],
         st_codes = []\<rparr>
        \<lparr>remoteUser = Some \<lparr>u_id = 42, u_CollectiveId = 7\<rparr>, ar_client_id = Some ''abc'',
         ar_redirect_uri = Some ''https://x/cb'', ar_scope = None, ar_state = None\<rparr>
     = (Inr \<lparr>ac_code = ''C'', ac_client = ''abc'', ac_user = 42,
             ac_redirectUri = ''https://x/cb'', ac_scope = None,
             ac_issuedAt = 1000, ac_expiresAt = 1300, ac_consumed = False\<rparr>,
        \<lparr>st_clients = [\<lparr>cl_id = ''abc'', cl_secret = ''S'', cl_redirectUris = [''https://x/cb''],
                          cl_grants = [''authorization_code''], cl_CollectiveId = 7\<rparr>],
         st_codes = [\<lparr>ac_code = ''C'', ac_client = ''abc'', ac_user = 42,
             ac_redirectUri = ''https://x/cb'', ac_scope = None,
             ac_issuedAt = 1000, ac_expiresAt = 1300, ac_consumed = False\<rparr>]\<rparr>)"
  by (simp add: GrantEngine_authorize_def authorizeAuthenticateHandler_handle_def Let_def)

text \<open>
  C4. On a request without a signed-in user the handler fails with the error
  \<open>UnauthorizedRequestError\<close>, and so does the authorize operation, which returns the
  store as it was: no code is persisted. On a request with a signed-in user the handler
  returns that user.
\<close>

theorem authorize_requires_principal:
  "(remoteUser rq = None \<longrightarrow>
      authorizeAuthenticateHandler_handle rq
        = Inl (new_UnauthorizedRequestError ''You must be signed in'')
      \<and> e_class (new_UnauthorizedRequestError ''You must be signed in'') = UnauthorizedRequestError
      \<and> GrantEngine_authorize newCode ttl now st rq
          = (Inl (new_UnauthorizedRequestError ''You must be signed in''), st))
   \<and> (remoteUser rq = Some u \<longrightarrow> authorizeAuthenticateHandler_handle rq = Inr u)"
  by (simp add: authorizeAuthenticateHandler_handle_def GrantEngine_authorize_def
      new_UnauthorizedRequestError_def)

text \<open>
  The request for client \<open>abc\<close> from a signed-out caller leaves the store without a code;
  the handler returns user 42 when user 42 is signed in.
\<close>

theorem authorize_requires_principal_witness:
  "GrantEngine_authorize ''C'' 300 1000
        \<lparr>st_clients = [\<lparr>cl_id = ''abc'', cl_secret = ''S'', cl_redirectUris = [''https://x/cb''],
                          cl_grants = [''authorization_code''], cl_CollectiveId = 7\<rparr>],
         st_codes = []\<rparr>
        \<lparr>remoteUser = None, ar_client_id = Some ''abc'',
         ar_redirect_uri = Some ''https://x/cb'', ar_scope = None, ar_state = None\<rparr>
     = (Inl \<lparr>e_class = UnauthorizedRequestError, e_code = 401,
             e_name = ''unauthorized_request'', e_message = ''You must be signed in''\<rparr>,
        \<lparr>st_clients = [\<lparr>cl_id = ''abc'', cl_secret = ''S'', cl_redirectUris = [''https://x/cb''],
                          cl_grants = [''authorization_code''], cl_CollectiveId = 7\<rparr>],
         st_codes = []\<rparr>)
   \<and> authorizeAuthenticateHandler_handle
        \<lparr>remoteUser = Some \<lparr>u_id = 42, u_CollectiveId = 7\<rparr>, ar_client_id = Some ''abc'',
         ar_redirect_uri = Some ''https://x/cb'', ar_scope = None, ar_state = None\<rparr>
     = Inr \<lparr>u_id = 42, u_CollectiveId = 7\<rparr>"
  using
    authorize_requires_principal [where rq = "\<lparr>remoteUser = None, ar_client_id = Some ''abc'',
         ar_redirect_uri = Some ''https://x/cb'', ar_scope = None, ar_state = None\<rparr>"
      and newCode = "''C''" and ttl = 300 and now = 1000
      and st = "\<lparr>st_clients = [\<lparr>cl_id = ''abc'', cl_secret = ''S'', cl_redirectUris = [''https://x/cb''],
                          cl_grants = [''authorization_code''], cl_CollectiveId = 7\<rparr>],
         st_codes = []\<rparr>"
      and u = "\<lparr>u_id = 42, u_CollectiveId = 7\<rparr>"]
    authorize_requires_principal [where rq = "\<lparr>remoteUser = Some \<lparr>u_id = 42, u_CollectiveId = 7\<rparr>, ar_client_id = Some ''abc'',
         ar_redirect_uri = Some ''https://x/cb'', ar_scope = None, ar_state = None\<rparr>"
      and newCode = "''C''" and ttl = 300 and now = 1000
      and st = "\<lparr>st_clients = [\<lparr>cl_id = ''abc'', cl_secret = ''S'', cl_redirectUris = [''https://x/cb''],
                          cl_grants = [''authorization_code''], cl_CollectiveId = 7\<rparr>],
         st_codes = []\<rparr>"
      and u = "\<lparr>u_id = 42, u_CollectiveId = 7\<rparr>"]
  by (simp add: new_UnauthorizedRequestError_def)

section \<open>The response handler\<close>

text \<open>
  C6. For a protocol response of status 302 the handler makes two calls: it sets the
  headers of the response without \<open>location\<close>, every other header as it was, and
  redirects to the value \<open>location\<close> had; it calls neither \<open>status\<close> nor \<open>send\<close>, and
  the protocol response is left with those headers. For any other status it sets the
  headers, the status and sends the body, as given.
\<close>

theorem handleResponse_redirect:
  "(resp_status r = 302 \<longrightarrow>
      (\<exists>hs. fst (handleResponse r) = [ResSet hs, ResRedirect (resp_headers r ''location'')]
         \<and> hs ''location'' = None
         \<and> (\<forall>k. k \<noteq> ''location'' \<longrightarrow> hs k = resp_headers r k)
         \<and> resp_headers (snd (handleResponse r)) = hs))
   \<and> (resp_status r \<noteq> 302 \<longrightarrow>
      fst (handleResponse r) =
        [ResSet (resp_headers r), ResStatus (resp_status r), ResSend (resp_body r)])"
  by (simp add: handleResponse_def Let_def)

text \<open>
  A redirect to \<open>https://x/cb?code=C\<close> that keeps its \<open>cache-control\<close> header, and a
  response of status 200.
\<close>

theorem handleResponse_redirect_witness:
  "(\<exists>hs. fst (handleResponse
        \<lparr>resp_status = 302,
         resp_headers = [''location'' \<mapsto> ''https://x/cb?code=C'', ''cache-control'' \<mapsto> ''no-store''],
         resp_body = Obj []\<rparr>)
        = [ResSet hs, ResRedirect (Some ''https://x/cb?code=C'')]
      \<and> hs ''location'' = None \<and> hs ''cache-control'' = Some ''no-store'')
   \<and> fst (handleResponse
        \<lparr>resp_status = 200, resp_headers = [''cache-control'' \<mapsto> ''no-store''],
         resp_body = Str ''t''\<rparr>)
        = [ResSet [''cache-control'' \<mapsto> ''no-store''], ResStatus 200, ResSend (Str ''t'')]"
proof -
  let ?r = "\<lparr>resp_status = 302,
         resp_headers = [''location'' \<mapsto> ''https://x/cb?code=C'', ''cache-control'' \<mapsto> ''no-store''],
         resp_body = Obj []\<rparr>"
  let ?q = "\<lparr>resp_status = 200, resp_headers = [''cache-control'' \<mapsto> ''no-store''],
         resp_body = Str ''t''\<rparr>"
  have "resp_status ?r = 302" by simp
  with handleResponse_redirect [of ?r]
  obtain hs where "fst (handleResponse ?r) = [ResSet hs, ResRedirect (resp_headers ?r ''location'')]"
    and "hs ''location'' = None"
    and "\<forall>k. k \<noteq> ''location'' \<longrightarrow> hs k = resp_headers ?r k"
    by blast
  then have a: "\<exists>hs. fst (handleResponse ?r) = [ResSet hs, ResRedirect (Some ''https://x/cb?code=C'')]
      \<and> hs ''location'' = None \<and> hs ''cache-control'' = Some ''no-store''"
    by simp
  have "resp_status ?q \<noteq> 302" by simp
  with handleResponse_redirect [of ?q]
  have b: "fst (handleResponse ?q)
        = [ResSet [''cache-control'' \<mapsto> ''no-store''], ResStatus 200, ResSend (Str ''t'')]"
    by simp
  from a b show ?thesis by blast
qed

section \<open>The error boundary\<close>

text \<open>
  C2. When \<open>useErrorHandler\<close> is off and the wrapped operation fails with an error
  \<open>e\<close>, each middleware sets the status \<open>e.code\<close> (after the headers of the protocol
  response, which the authentication middleware does not pass) and sends the JSON body
  \<open>{error: e.name, error_description: e.message}\<close>; for an
  \<open>UnauthorizedRequestError\<close> it sets the header
  \<open>WWW-Authenticate: Bearer realm="service"\<close> and sends an empty body instead of the
  JSON body.
\<close>

theorem error_boundary:
  assumes "\<not> useErrorHandler this"
  shows "(server_authenticate req opts = (Inl e, r) \<longrightarrow>
            OAuthServer_authenticate this server_authenticate opts req =
              [ResStatus (e_code e)]
              @ (if e_class e = UnauthorizedRequestError
                 then [ResSetField ''WWW-Authenticate''
                         (''Bearer realm='' @ [CHR 0x22] @ ''service'' @ [CHR 0x22]),
                       ResSend Undefined]
                 else [ResSend (Obj [(''error'', Str (e_name e)),
                                     (''error_description'', Str (e_message e))])]))
       \<and> (server_authorize req' opts' = (Inl e, r) \<longrightarrow>
            OAuthServer_authorize this server_authorize opts' req' =
              [ResSet (resp_headers r), ResStatus (e_code e)]
              @ (if e_class e = UnauthorizedRequestError
                 then [ResSetField ''WWW-Authenticate''
                         (''Bearer realm='' @ [CHR 0x22] @ ''service'' @ [CHR 0x22]),
                       ResSend Undefined]
                 else [ResSend (Obj [(''error'', Str (e_name e)),
                                     (''error_description'', Str (e_message e))])]))
       \<and> (server_token req'' opts'' = (Inl e, r) \<longrightarrow>
            OAuthServer_token this server_token opts'' req'' =
              [ResSet (resp_headers r), ResStatus (e_code e)]
              @ (if e_class e = UnauthorizedRequestError
                 then [ResSetField ''WWW-Authenticate''
                         (''Bearer realm='' @ [CHR 0x22] @ ''service'' @ [CHR 0x22]),
                       ResSend Undefined]
                 else [ResSend (Obj [(''error'', Str (e_name e)),
                                     (''error_description'', Str (e_message e))])]))"
  using assms
  by (simp add: authenticate_failure authorize_failure token_failure handleError_def)

text \<open>
  The authentication middleware on a request without a token: status 401, the challenge
  header, an empty body. The token middleware on an unknown client: the headers of the
  protocol response, status 400 and the JSON body.
\<close>

theorem error_boundary_witness:
  "OAuthServer (Some [''model'' \<mapsto> Obj []])
     = Inr \<lparr>useErrorHandler = False, continueMiddleware = False,
            server_options = [''model'' \<mapsto> Obj []]
              (''useErrorHandler'' := None, ''continueMiddleware'' := None)\<rparr>
   \<and> OAuthServer_authenticate
        \<lparr>useErrorHandler = False, continueMiddleware = False,
         server_options = [''model'' \<mapsto> Obj []]
           (''useErrorHandler'' := None, ''continueMiddleware'' := None)\<rparr>
        (\<lambda>rq op. (Inl (new_UnauthorizedRequestError ''no token''),
                   \<lparr>resp_status = 200, resp_headers = Map.empty, resp_body = Obj []\<rparr>))
        () ()
      = [ResStatus 401,
         ResSetField ''WWW-Authenticate''
           (''Bearer realm='' @ [CHR 0x22] @ ''service'' @ [CHR 0x22]),
         ResSend Undefined]
   \<and> OAuthServer_token
        \<lparr>useErrorHandler = False, continueMiddleware = False,
         server_options = [''model'' \<mapsto> Obj []]
           (''useErrorHandler'' := None, ''continueMiddleware'' := None)\<rparr>
        (\<lambda>rq op. (Inl (new_InvalidClientError ''bad''),
                   \<lparr>resp_status = 200, resp_headers = [''cache-control'' \<mapsto> ''no-store''],
                    resp_body = Obj []\<rparr>))
        None ()
      = [ResSet [''cache-control'' \<mapsto> ''no-store''], ResStatus 400,
         ResSend (Obj [(''error'', Str ''invalid_client''),
                       (''error_description'', Str ''bad'')])]"
proof -
  let ?srv = "\<lparr>useErrorHandler = False, continueMiddleware = False,
         server_options = [''model'' \<mapsto> Obj []]
           (''useErrorHandler'' := None, ''continueMiddleware'' := None)\<rparr>"
  let ?r = "\<lparr>resp_status = 200, resp_headers = Map.empty, resp_body = Obj []\<rparr>"
  let ?q = "\<lparr>resp_status = 200, resp_headers = [''cache-control'' \<mapsto> ''no-store''],
                    resp_body = Obj []\<rparr>"
  let ?u = "new_UnauthorizedRequestError ''no token''"
  let ?c = "new_InvalidClientError ''bad''"
  have ctor: "OAuthServer (Some [''model'' \<mapsto> Obj []]) = Inr ?srv"
    by (simp add: OAuthServer_def getprop_def)
  have off: "\<not> useErrorHandler ?srv" by simp
  have a: "OAuthServer_authenticate ?srv (\<lambda>rq op. (Inl ?u, ?r)) () ()
      = [ResStatus 401,
         ResSetField ''WWW-Authenticate''
           (''Bearer realm='' @ [CHR 0x22] @ ''service'' @ [CHR 0x22]),
         ResSend Undefined]"
    using error_boundary [OF off, where e = ?u and r = ?r
        and server_authenticate = "\<lambda>rq op. (Inl ?u, ?r)" and req = "()" and opts = "()"
        and server_authorize = "\<lambda>rq op. (Inl ?u, ?r)" and req' = "()" and opts' = "()"
        and server_token = "\<lambda>rq op. (Inl ?u, ?r)" and req'' = "()" and opts'' = None]
    by (simp add: new_UnauthorizedRequestError_def)
  have b: "OAuthServer_token ?srv (\<lambda>rq op. (Inl ?c, ?q)) None ()
      = [ResSet [''cache-control'' \<mapsto> ''no-store''], ResStatus 400,
         ResSend (Obj [(''error'', Str ''invalid_client''),
                       (''error_description'', Str ''bad'')])]"
    using error_boundary [OF off, where e = ?c and r = ?q
        and server_authenticate = "\<lambda>rq op. (Inl ?c, ?q)" and req = "()" and opts = "()"
        and server_authorize = "\<lambda>rq op. (Inl ?c, ?q)" and req' = "()" and opts' = "()"
        and server_token = "\<lambda>rq op. (Inl ?c, ?q)" and req'' = "()" and opts'' = None]
    by (simp add: new_InvalidClientError_def)
  from ctor a b show ?thesis by blast
qed

text \<open>
  C9. With \<open>useErrorHandler\<close> on, the error boundary only calls \<open>next(e)\<close>: it makes no
  call on the response, and a middleware whose operation fails does nothing else. With
  \<open>useErrorHandler\<close> off, the boundary writes to the response and does not call
  \<open>next(e)\<close>. The flag of a constructed server is the truthiness of the option
  \<open>useErrorHandler\<close> it was constructed with.
\<close>

theorem useErrorHandler_delegates:
  "(useErrorHandler this \<longrightarrow>
      handleError this e response = [Next (Some e)]
      \<and> \<not> touches_res (handleError this e response)
      \<and> (server_authenticate req opts = (Inl e, r) \<longrightarrow>
           OAuthServer_authenticate this server_authenticate opts req = [Next (Some e)])
      \<and> (server_authorize req' opts' = (Inl e, r) \<longrightarrow>
           OAuthServer_authorize this server_authorize opts' req' = [Next (Some e)])
      \<and> (server_token req'' opts'' = (Inl e, r) \<longrightarrow>
           OAuthServer_token this server_token opts'' req'' = [Next (Some e)]))
   \<and> (\<not> useErrorHandler this \<longrightarrow>
      touches_res (handleError this e response)
      \<and> Next (Some e) \<notin> set (handleError this e response))
   \<and> (OAuthServer options = Inr this \<longrightarrow>
      useErrorHandler this =
        truthy (getprop (case options of None \<Rightarrow> Map.empty | Some m \<Rightarrow> m) ''useErrorHandler''))"
  by (auto simp: authenticate_failure authorize_failure token_failure handleError_def
      OAuthServer_def Let_def split: option.splits if_splits)

text \<open>
  A server constructed with \<open>useErrorHandler: true\<close> has the flag on; its token
  middleware passes a failure to \<open>next\<close>; a server without the flag writes to the
  response.
\<close>

theorem useErrorHandler_delegates_witness:
  "OAuthServer (Some [''model'' \<mapsto> Obj [], ''useErrorHandler'' \<mapsto> Bool True])
     = Inr \<lparr>useErrorHandler = True, continueMiddleware = False,
            server_options = [''model'' \<mapsto> Obj [], ''useErrorHandler'' \<mapsto> Bool True]
              (''useErrorHandler'' := None, ''continueMiddleware'' := None)\<rparr>
   \<and> OAuthServer_token
        \<lparr>useErrorHandler = True, continueMiddleware = False,
         server_options = [''model'' \<mapsto> Obj [], ''useErrorHandler'' \<mapsto> Bool True]
           (''useErrorHandler'' := None, ''continueMiddleware'' := None)\<rparr>
        (\<lambda>rq op. (Inl (new_InvalidClientError ''bad''),
                   \<lparr>resp_status = 200, resp_headers = Map.empty, resp_body = Obj []\<rparr>))
        None ()
      = [Next (Some (new_InvalidClientError ''bad''))]
   \<and> touches_res (handleError
        \<lparr>useErrorHandler = False, continueMiddleware = False,
         server_options = [''model'' \<mapsto> Obj []]
           (''useErrorHandler'' := None, ''continueMiddleware'' := None)\<rparr>
        (new_InvalidClientError ''bad'') None)"
proof -
  let ?ctor = "[''model'' \<mapsto> Obj [], ''useErrorHandler'' \<mapsto> Bool True]"
  let ?on = "\<lparr>useErrorHandler = True, continueMiddleware = False,
         server_options = ?ctor(''useErrorHandler'' := None, ''continueMiddleware'' := None)\<rparr>"
  let ?off = "\<lparr>useErrorHandler = False, continueMiddleware = False,
         server_options = [''model'' \<mapsto> Obj []]
           (''useErrorHandler'' := None, ''continueMiddleware'' := None)\<rparr>"
  let ?r = "\<lparr>resp_status = 200, resp_headers = Map.empty, resp_body = Obj []\<rparr>"
  let ?c = "new_InvalidClientError ''bad''"
  let ?f = "\<lambda>rq op. (Inl ?c, ?r)"
  have ctor_on: "OAuthServer (Some ?ctor) = Inr ?on"
    by (simp add: OAuthServer_def getprop_def)
  have ctor_off: "OAuthServer (Some [''model'' \<mapsto> Obj []]) = Inr ?off"
    by (simp add: OAuthServer_def getprop_def)
  have a: "OAuthServer_token ?on ?f None () = [Next (Some ?c)]"
    using ctor_on useErrorHandler_delegates [where this = ?on and e = ?c and response = None
        and r = ?r and server_authenticate = ?f and req = "()" and opts = "()"
        and server_authorize = ?f and req' = "()" and opts' = "()"
        and server_token = ?f and req'' = "()" and opts'' = None
        and options = "Some ?ctor"]
    by simp
  have b: "touches_res (handleError ?off ?c None)"
    using ctor_off useErrorHandler_delegates [where this = ?off and e = ?c and response = None
        and r = ?r and server_authenticate = ?f and req = "()" and opts = "()"
        and server_authorize = ?f and req' = "()" and opts' = "()"
        and server_token = ?f and req'' = "()" and opts'' = None
        and options = "Some [''model'' \<mapsto> Obj []]"]
    by simp
  from ctor_on a b show ?thesis by blast
qed

section \<open>The option continueMiddleware\<close>




section \<open>Token lifetimes\<close>

text \<open>
  C5, as stated, has the expiry of the signed token follow the effective lifetime. With
  the session constant at 90 days and a call that sets \<open>accessTokenLifetime\<close> to 3600,
  the effective lifetime is 3600 and the signed token expires 7776000 seconds after it
  was issued.
\<close>

theorem token_expiry_counterexample:
  "token_options \<lparr>TOKEN_EXPIRATION_SESSION = 7776000, ALGORITHM = ''HS256'', KID = ''k1''\<rparr>
      [''model'' \<mapsto> Obj []] (Some [''accessTokenLifetime'' \<mapsto> Num 3600]) ''accessTokenLifetime''
    = Some (Num 3600)
   \<and> claim_exp (jwt_payload (getTokenType
        \<lparr>TOKEN_EXPIRATION_SESSION = 7776000, ALGORITHM = ''HS256'', KID = ''k1''\<rparr> ''secret'' 1000
        \<lparr>accessToken = ''T'', accessTokenExpiresAt = 4600, refreshToken = None,
         tok_client = ''abc'', tok_user = \<lparr>u_id = 42, u_CollectiveId = 7\<rparr>,
         accessTokenLifetime = 3600\<rparr>))
     - claim_iat (jwt_payload (getTokenType
        \<lparr>TOKEN_EXPIRATION_SESSION = 7776000, ALGORITHM = ''HS256'', KID = ''k1''\<rparr> ''secret'' 1000
        \<lparr>accessToken = ''T'', accessTokenExpiresAt = 4600, refreshToken = None,
         tok_client = ''abc'', tok_user = \<lparr>u_id = 42, u_CollectiveId = 7\<rparr>,
         accessTokenLifetime = 3600\<rparr>))
     = 7776000"
  by (simp add: token_options_def assign_def token_defaults_def getTokenType_def jwt_sign_def)

text \<open>
  C5, amended. The lifetimes the token handler is constructed with are those of the call
  when the call gives them, else those of the server's options (the lifetimes the server
  was constructed with) when these give them, else the defaults
  \<open>TOKEN_EXPIRATION_SESSION\<close> and 365 days. The signed token expires
  \<open>TOKEN_EXPIRATION_SESSION\<close> seconds after it was issued, whatever the effective
  lifetime; this is the effective access token lifetime when neither the call nor the
  server's options give one.
\<close>

theorem token_lifetime_precedence:
  "token_options auth this_options options ''accessTokenLifetime'' =
     (case (case options of None \<Rightarrow> None | Some m \<Rightarrow> m ''accessTokenLifetime'') of
        Some v \<Rightarrow> Some v
      | None \<Rightarrow>
          (case this_options ''accessTokenLifetime'' of
             Some v \<Rightarrow> Some v
           | None \<Rightarrow> Some (Num (TOKEN_EXPIRATION_SESSION auth))))
   \<and> token_options auth this_options options ''refreshTokenLifetime'' =
     (case (case options of None \<Rightarrow> None | Some m \<Rightarrow> m ''refreshTokenLifetime'') of
        Some v \<Rightarrow> Some v
      | None \<Rightarrow>
          (case this_options ''refreshTokenLifetime'' of
             Some v \<Rightarrow> Some v
           | None \<Rightarrow> Some (Num 31536000)))
   \<and> this_server_token this auth jwtSecret now handle request options =
       handle (token_options auth (server_options this) options)
         (getTokenType auth jwtSecret now) request
   \<and> (OAuthServer ctor_options = Inr this \<longrightarrow>
        server_options this ''accessTokenLifetime'' =
          (case ctor_options of None \<Rightarrow> None | Some m \<Rightarrow> m ''accessTokenLifetime'')
        \<and> server_options this ''refreshTokenLifetime'' =
          (case ctor_options of None \<Rightarrow> None | Some m \<Rightarrow> m ''refreshTokenLifetime''))
   \<and> claim_exp (jwt_payload (getTokenType auth jwtSecret now model)) =
       claim_iat (jwt_payload (getTokenType auth jwtSecret now model))
         + TOKEN_EXPIRATION_SESSION auth
   \<and> ((case options of None \<Rightarrow> None | Some m \<Rightarrow> m ''accessTokenLifetime'') = None
        \<and> this_options ''accessTokenLifetime'' = None \<longrightarrow>
      token_options auth this_options options ''accessTokenLifetime'' =
        Some (Num (claim_exp (jwt_payload (getTokenType auth jwtSecret now model))
                   - claim_iat (jwt_payload (getTokenType auth jwtSecret now model)))))"
  by (auto simp: token_options_def assign_def token_defaults_def map_add_def
      this_server_token_def CustomOAuth2Server_token_def getTokenType_def jwt_sign_def
      OAuthServer_def Let_def split: option.splits if_splits)

text \<open>
  A server constructed with a refresh token lifetime of two weeks and no access token
  lifetime, and a call without options: the effective access token lifetime is the 90
  days of the session constant, the effective refresh token lifetime is the two weeks,
  and a token issued at time 1000 expires at 7777000.
\<close>

theorem token_lifetime_precedence_witness:
  "OAuthServer (Some [''model'' \<mapsto> Obj [], ''refreshTokenLifetime'' \<mapsto> Num 1209600])
     = Inr \<lparr>useErrorHandler = False, continueMiddleware = False,
            server_options =
              [''model'' \<mapsto> Obj [], ''refreshTokenLifetime'' \<mapsto> Num 1209600]
                (''useErrorHandler'' := None, ''continueMiddleware'' := None)\<rparr>
   \<and> token_options \<lparr>TOKEN_EXPIRATION_SESSION = 7776000, ALGORITHM = ''HS256'', KID = ''k1''\<rparr>
        ([''model'' \<mapsto> Obj [], ''refreshTokenLifetime'' \<mapsto> Num 1209600]
           (''useErrorHandler'' := None, ''continueMiddleware'' := None))
        None ''accessTokenLifetime''
      = Some (Num 7776000)
   \<and> token_options \<lparr>TOKEN_EXPIRATION_SESSION = 7776000, ALGORITHM = ''HS256'', KID = ''k1''\<rparr>
        ([''model'' \<mapsto> Obj [], ''refreshTokenLifetime'' \<mapsto> Num 1209600]
           (''useErrorHandler'' := None, ''continueMiddleware'' := None))
        None ''refreshTokenLifetime''
      = Some (Num 1209600)
   \<and> claim_exp (jwt_payload (getTokenType
        \<lparr>TOKEN_EXPIRATION_SESSION = 7776000, ALGORITHM = ''HS256'', KID = ''k1''\<rparr> ''secret'' 1000
        \<lparr>accessToken = ''T'', accessTokenExpiresAt = 7777000, refreshToken = None,
         tok_client = ''abc'', tok_user = \<lparr>u_id = 42, u_CollectiveId = 7\<rparr>,
         accessTokenLifetime = 7776000\<rparr>)) = 7777000"
proof -
  let ?auth = "\<lparr>TOKEN_EXPIRATION_SESSION = 7776000, ALGORITHM = ''HS256'', KID = ''k1''\<rparr>"
  let ?ctor = "[''model'' \<mapsto> Obj [], ''refreshTokenLifetime'' \<mapsto> Num 1209600]"
  let ?opts = "?ctor(''useErrorHandler'' := None, ''continueMiddleware'' := None)"
  let ?srv = "\<lparr>useErrorHandler = False, continueMiddleware = False, server_options = ?opts\<rparr>"
  let ?model = "\<lparr>accessToken = ''T'', accessTokenExpiresAt = 7777000, refreshToken = None,
         tok_client = ''abc'', tok_user = \<lparr>u_id = 42, u_CollectiveId = 7\<rparr>,
         accessTokenLifetime = 7776000\<rparr>"
  have ctor: "OAuthServer (Some ?ctor) = Inr ?srv"
    by (simp add: OAuthServer_def getprop_def)
  have none: "(case None :: jsobject option of None \<Rightarrow> None | Some m \<Rightarrow> m ''accessTokenLifetime'') = None
      \<and> ?opts ''accessTokenLifetime'' = None"
    by simp
  note inst = token_lifetime_precedence [where auth = ?auth and this_options = ?opts
      and options = None and jwtSecret = "''secret''" and now = 1000 and model = ?model
      and handle = "\<lambda>opts gtt rq. (Inl (new_InvalidClientError ''bad''),
                   \<lparr>resp_status = 200, resp_headers = Map.empty, resp_body = Obj []\<rparr>)"
      and request = "()" and this = ?srv and ctor_options = "Some ?ctor"]
  from inst ctor none
  have "token_options ?auth ?opts None ''accessTokenLifetime'' = Some (Num 7776000)"
    and "token_options ?auth ?opts None ''refreshTokenLifetime'' = Some (Num 1209600)"
    and "claim_exp (jwt_payload (getTokenType ?auth ''secret'' 1000 ?model)) = 7777000"
    by (simp_all add: getTokenType_def jwt_sign_def)
  with ctor show ?thesis by blast
qed

end
